theory Spec2Isabelle
  imports Main
begin

section \<open>The attribute list editor (AttributeList.tsx)\<close>

text \<open>
  An attribute is the object \<^verbatim>\<open>{ trait_type: "", value: "" }\<close> of the source; the
  attribute list is a JavaScript array of such objects, modelled as a HOL list. The field
  \<^verbatim>\<open>value\<close> is called \<open>trait_value\<close> here, \<open>value\<close> being an Isabelle keyword.
\<close>

record attribute =
  trait_type :: string
  trait_value :: string

text \<open>
  \<^verbatim>\<open>attributes.filter((_, i) => i !== index)\<close>: the callback of \<^verbatim>\<open>filter\<close> receives
  every element together with its position \<open>0, 1, 2, ...\<close>; the element is kept when its
  position differs from \<open>index\<close>. The positions are natural numbers, the argument
  \<open>index\<close> is any integer the caller passes (the comparison \<^verbatim>\<open>!==\<close> never raises).
  The function returns the array it hands to \<^verbatim>\<open>setAttributes\<close>.
\<close>

definition handleRemoveAttribute :: "attribute list \<Rightarrow> int \<Rightarrow> attribute list" where
  "handleRemoveAttribute attributes index =
     map snd (filter (\<lambda>(i, _). int i \<noteq> index) (enumerate 0 attributes))"

section \<open>The minting form (the \<^verbatim>\<open>NFTMinter\<close> component)\<close>

subsection \<open>Component state and props\<close>

text \<open>
  A \<^verbatim>\<open>File\<close> chosen in the file input; \<^verbatim>\<open>image\<close> is \<^verbatim>\<open>File | null\<close>, modelled as
  an option (\<open>None\<close> is the falsy \<^verbatim>\<open>null\<close>/\<^verbatim>\<open>undefined\<close>).
\<close>

datatype blob = File string

text \<open>The connected wallet of \<^verbatim>\<open>useWallet()\<close>; only \<^verbatim>\<open>wallet.adapter\<close> is read.\<close>

datatype wallet = Wallet (adapter: string)

record props =
  publicKey :: "string option"
  wallet :: "wallet option"

text \<open>
  The nine \<^verbatim>\<open>useState\<close> cells of the component, in the order they are declared. The
  cell \<^verbatim>\<open>image\<close> is called \<open>image_file\<close> here, \<open>image\<close> being a constant of HOL.
\<close>

record state =
  name :: string
  symbol :: string
  description :: string
  image_file :: "blob option"
  isMinting :: bool
  transactionLink :: string
  metadataUri :: string
  imageUrl :: string
  useCore :: bool

subsection \<open>Values sent to the outside\<close>

datatype error = Error string

datatype json = JString string | JObject "(string \<times> json) list"

datatype body = FormData "(string \<times> blob) list" | Json json

text \<open>
  The three arguments of \<^verbatim>\<open>axios.post(url, data, { headers })\<close>. A header value read
  from \<^verbatim>\<open>process.env\<close> may be undefined.
\<close>

record request =
  url :: string
  payload :: body
  headers :: "(string \<times> string option) list"

datatype plugin = MplCore | MplTokenMetadata

text \<open>\<^verbatim>\<open>createUmi(endpoint).use(plugin).use(walletAdapterIdentity(adapter))\<close>\<close>

record umi =
  umi_endpoint :: string
  umi_plugin :: plugin
  umi_identity :: string

text \<open>
  The two transaction builders: \<^verbatim>\<open>create(umi, {asset, name, uri})\<close> of mpl-core and
  \<^verbatim>\<open>createNft(umi, {mint, sellerFeeBasisPoints, name, uri})\<close> of mpl-token-metadata.
  A signer is represented by its public key.
\<close>

datatype tx_builder =
  Create umi string string string
| CreateNft umi string nat string string

text \<open>The calls that leave the browser: a request to the pinning service, or
  \<^verbatim>\<open>builder.sendAndConfirm(umi)\<close>.\<close>

datatype ext_call = AxiosPost request | SendAndConfirm tx_builder

text \<open>\<^verbatim>\<open>toast({ title, description, variant })\<close>\<close>

datatype toast = Toast string string "string option"

datatype console_msg = ConsoleLog string string | ConsoleError string error

subsection \<open>The environment\<close>

text \<open>
  What the handler cannot compute: the two credentials of \<^verbatim>\<open>process.env\<close>, the
  answer of the pinning service to a request (the \<^verbatim>\<open>data.IpfsHash\<close> of the response),
  the outcome of step 3 (setting up Umi with its two plugins and \<^verbatim>\<open>generateSigner(umi)\<close>:
  the public key of the fresh signer), whether the call \<^verbatim>\<open>create(umi, {...})\<close> or
  \<^verbatim>\<open>createNft(umi, {...})\<close> returns its transaction builder, the signature bytes of the
  confirmed transaction, and the base58 text of \<^verbatim>\<open>base58.deserialize\<close>. Each of them
  may throw instead (\<open>Inl\<close>): a rejected promise, a malformed response, a wallet
  identity that has lost its public key, a refused signature, a rejected transaction.
  The builder call is evaluated before \<^verbatim>\<open>.sendAndConfirm(umi)\<close>: when it throws, nothing
  is submitted.
\<close>

record env =
  PINATA_API_KEY :: "string option"
  PINATA_SECRET_API_KEY :: "string option"
  axios_post :: "request \<Rightarrow> error + string"
  generateSigner :: "umi \<Rightarrow> error + string"
  transactionBuilder :: "tx_builder \<Rightarrow> error + unit"
  sendAndConfirm :: "tx_builder \<Rightarrow> error + nat list"
  base58_deserialize :: "nat list \<Rightarrow> error + string"

subsection \<open>The world the handler acts on\<close>

text \<open>
  The component state, and the logs of everything the handler emits: toasts shown, external
  calls issued (a call is logged when it is issued, whether or not it succeeds), console
  lines.
\<close>

record world =
  st :: state
  toasts :: "toast list"
  calls :: "ext_call list"
  console :: "console_msg list"

definition setName :: "string \<Rightarrow> world \<Rightarrow> world" where
  "setName v w = w\<lparr>st := (st w)\<lparr>name := v\<rparr>\<rparr>"

definition setSymbol :: "string \<Rightarrow> world \<Rightarrow> world" where
  "setSymbol v w = w\<lparr>st := (st w)\<lparr>symbol := v\<rparr>\<rparr>"

definition setDescription :: "string \<Rightarrow> world \<Rightarrow> world" where
  "setDescription v w = w\<lparr>st := (st w)\<lparr>description := v\<rparr>\<rparr>"

definition setImage :: "blob option \<Rightarrow> world \<Rightarrow> world" where
  "setImage v w = w\<lparr>st := (st w)\<lparr>image_file := v\<rparr>\<rparr>"

definition setIsMinting :: "bool \<Rightarrow> world \<Rightarrow> world" where
  "setIsMinting v w = w\<lparr>st := (st w)\<lparr>isMinting := v\<rparr>\<rparr>"

definition setTransactionLink :: "string \<Rightarrow> world \<Rightarrow> world" where
  "setTransactionLink v w = w\<lparr>st := (st w)\<lparr>transactionLink := v\<rparr>\<rparr>"

definition setMetadataUri :: "string \<Rightarrow> world \<Rightarrow> world" where
  "setMetadataUri v w = w\<lparr>st := (st w)\<lparr>metadataUri := v\<rparr>\<rparr>"

definition setImageUrl :: "string \<Rightarrow> world \<Rightarrow> world" where
  "setImageUrl v w = w\<lparr>st := (st w)\<lparr>imageUrl := v\<rparr>\<rparr>"

definition toast :: "toast \<Rightarrow> world \<Rightarrow> world" where
  "toast t w = w\<lparr>toasts := toasts w @ [t]\<rparr>"

definition issue :: "ext_call \<Rightarrow> world \<Rightarrow> world" where
  "issue c w = w\<lparr>calls := calls w @ [c]\<rparr>"

definition console_log :: "string \<Rightarrow> string \<Rightarrow> world \<Rightarrow> world" where
  "console_log m v w = w\<lparr>console := console w @ [ConsoleLog m v]\<rparr>"

definition console_error :: "string \<Rightarrow> error \<Rightarrow> world \<Rightarrow> world" where
  "console_error m err w = w\<lparr>console := console w @ [ConsoleError m err]\<rparr>"

subsection \<open>The requests and the metadata document\<close>

text \<open>The first \<^verbatim>\<open>axios.post\<close>: the form data with the image under the key \<^verbatim>\<open>file\<close>.\<close>

definition pinFileRequest :: "env \<Rightarrow> blob \<Rightarrow> request" where
  "pinFileRequest e img =
     \<lparr>url = ''https://api.pinata.cloud/pinning/pinFileToIPFS'',
      payload = FormData [(''file'', img)],
      headers = [(''pinata_api_key'', PINATA_API_KEY e),
                 (''pinata_secret_api_key'', PINATA_SECRET_API_KEY e),
                 (''Content-Type'', Some ''multipart/form-data'')]\<rparr>"

text \<open>The object literal \<^verbatim>\<open>{ name, description, symbol, image: imageUrl }\<close>.\<close>

definition metadata :: "state \<Rightarrow> string \<Rightarrow> json" where
  "metadata s imgUrl =
     JObject [(''name'', JString (name s)),
              (''description'', JString (description s)),
              (''symbol'', JString (symbol s)),
              (''image'', JString imgUrl)]"

text \<open>The second \<^verbatim>\<open>axios.post\<close>: the metadata document as JSON.\<close>

definition pinJSONRequest :: "env \<Rightarrow> json \<Rightarrow> request" where
  "pinJSONRequest e doc =
     \<lparr>url = ''https://api.pinata.cloud/pinning/pinJSONToIPFS'',
      payload = Json doc,
      headers = [(''pinata_api_key'', PINATA_API_KEY e),
                 (''pinata_secret_api_key'', PINATA_SECRET_API_KEY e),
                 (''Content-Type'', Some ''application/json'')]\<rparr>"

text \<open>\<^verbatim>\<open>`https://gateway.pinata.cloud/ipfs/${hash}`\<close>\<close>

definition gatewayUrl :: "string \<Rightarrow> string" where
  "gatewayUrl hash = ''https://gateway.pinata.cloud/ipfs/'' @ hash"

text \<open>\<^verbatim>\<open>`https://explorer.solana.com/tx/${signature}?cluster=devnet`\<close>\<close>

definition explorerUrl :: "string \<Rightarrow> string" where
  "explorerUrl signature = ''https://explorer.solana.com/tx/'' @ signature @ ''?cluster=devnet''"

text \<open>Step 3 of the source: the Umi instance for the selected standard.\<close>

definition createUmi :: "props \<Rightarrow> state \<Rightarrow> umi" where
  "createUmi p s =
     \<lparr>umi_endpoint = ''https://api.devnet.solana.com'',
      umi_plugin = (if useCore s then MplCore else MplTokenMetadata),
      umi_identity = adapter (the (wallet p))\<rparr>"

subsection \<open>The handler\<close>

text \<open>
  The body of the \<^verbatim>\<open>try\<close> block. It reads the props and the state values captured by
  the closure (\<open>p\<close>, \<open>s\<close>) and acts on the world. A throw is \<open>Inl\<close> with the error and
  the world as it is at that point: state setters already called are not undone.
  It runs only after both guards of the handler, where \<open>wallet p\<close> and \<open>image_file s\<close>
  are not \<open>None\<close>.
\<close>

definition tryBlock :: "env \<Rightarrow> props \<Rightarrow> state \<Rightarrow> world \<Rightarrow> (error \<times> world) + world" where
  "tryBlock e p s w0 =
     (let req1 = pinFileRequest e (the (image_file s));
          w1 = issue (AxiosPost req1) w0
      in case axios_post e req1 of
           Inl err \<Rightarrow> Inl (err, w1)
         | Inr imageHash \<Rightarrow>
     (let imgUrl = gatewayUrl imageHash;
          w2 = setImageUrl imgUrl w1;
          w3 = console_log ''Image uploaded to IPFS at:'' imgUrl w2;
          doc = metadata s imgUrl;
          req2 = pinJSONRequest e doc;
          w4 = issue (AxiosPost req2) w3
      in case axios_post e req2 of
           Inl err \<Rightarrow> Inl (err, w4)
         | Inr metadataHash \<Rightarrow>
     (let mdUri = gatewayUrl metadataHash;
          w5 = setMetadataUri mdUri w4;
          w6 = console_log ''Metadata uploaded to IPFS at:'' mdUri w5;
          u = createUmi p s
      in case generateSigner e u of
           Inl err \<Rightarrow> Inl (err, w6)
         | Inr assetOrMint \<Rightarrow>
     (let builder = (if useCore s then Create u assetOrMint (name s) mdUri
                     else CreateNft u assetOrMint 0 (name s) mdUri)
      in case transactionBuilder e builder of
           Inl err \<Rightarrow> Inl (err, w6)
         | Inr _ \<Rightarrow>
     (let w7 = issue (SendAndConfirm builder) w6
      in case sendAndConfirm e builder of
           Inl err \<Rightarrow> Inl (err, w7)
         | Inr tx_signature \<Rightarrow>
     (case base58_deserialize e tx_signature of
           Inl err \<Rightarrow> Inl (err, w7)
         | Inr signature \<Rightarrow>
     (let w8 = setTransactionLink (explorerUrl signature) w7;
          w9 = toast (Toast ''NFT minted successfully!'' (''Mint address: '' @ assetOrMint) None) w8
      in Inr (setImage None (setDescription [] (setSymbol [] (setName [] w9)))))))))))"

text \<open>
  \<^verbatim>\<open>handleMint\<close>: the two guards, each with its toast and an early return; then
  \<^verbatim>\<open>setIsMinting(true)\<close>, the \<^verbatim>\<open>try\<close> block, the \<^verbatim>\<open>catch\<close> with its log line and toast,
  and \<^verbatim>\<open>setIsMinting(false)\<close> in \<^verbatim>\<open>finally\<close>. An empty string is falsy.
\<close>

definition handleMint :: "env \<Rightarrow> props \<Rightarrow> world \<Rightarrow> world" where
  "handleMint e p w =
     (let s = st w in
      if publicKey p = None \<or> wallet p = None then
        toast (Toast ''Wallet not connected'' ''Please connect your wallet first''
                 (Some ''destructive'')) w
      else if name s = [] \<or> symbol s = [] \<or> description s = [] \<or> image_file s = None then
        toast (Toast ''Missing information'' ''Please fill in all fields''
                 (Some ''destructive'')) w
      else
        (let w1 = setIsMinting True w;
             w2 = (case tryBlock e p s w1 of
                     Inr w' \<Rightarrow> w'
                   | Inl (err, w') \<Rightarrow>
                       toast (Toast ''Error minting NFT'' ''Please try again''
                                (Some ''destructive''))
                         (console_error ''Error minting NFT:'' err w'))
         in setIsMinting False w2))"

text \<open>
  The result panel of the rendered form: \<^verbatim>\<open>{transactionLink && ( ... )}\<close> shows the three
  links only when \<^verbatim>\<open>transactionLink\<close> is a non-empty string.
\<close>

definition resultPanel :: "state \<Rightarrow> (string \<times> string \<times> string) option" where
  "resultPanel s =
     (if transactionLink s = [] then None
      else Some (transactionLink s, imageUrl s, metadataUri s))"

section \<open>Notions used in the statements\<close>

text \<open>Both guards of \<^verbatim>\<open>handleMint\<close> pass: a wallet is connected and no field is empty.\<close>

definition validated :: "props \<Rightarrow> state \<Rightarrow> bool" where
  "validated p s \<longleftrightarrow>
     publicKey p \<noteq> None \<and> wallet p \<noteq> None \<and>
     name s \<noteq> [] \<and> symbol s \<noteq> [] \<and> description s \<noteq> [] \<and> image_file s \<noteq> None"

text \<open>Whether a JSON document is an object with a field of the given name.\<close>

fun has_field :: "string \<Rightarrow> json \<Rightarrow> bool" where
  "has_field k (JObject kvs) = (k \<in> set (map fst kvs))"
| "has_field k (JString _) = False"

text \<open>The JSON documents posted to the pinning service, in the order of the call log.\<close>

fun posted_metadata :: "ext_call list \<Rightarrow> json list" where
  "posted_metadata [] = []"
| "posted_metadata (AxiosPost r # cs) =
     (case payload r of Json doc \<Rightarrow> doc # posted_metadata cs | FormData _ \<Rightarrow> posted_metadata cs)"
| "posted_metadata (SendAndConfirm _ # cs) = posted_metadata cs"

text \<open>The transaction builders submitted to the chain, in the order of the call log.\<close>

fun submissions :: "ext_call list \<Rightarrow> tx_builder list" where
  "submissions [] = []"
| "submissions (AxiosPost _ # cs) = submissions cs"
| "submissions (SendAndConfirm b # cs) = b # submissions cs"

section \<open>Example inputs\<close>

text \<open>An environment in which every step succeeds.\<close>

definition env_ok :: env where
  "env_ok =
     \<lparr>PINATA_API_KEY = Some ''key'',
      PINATA_SECRET_API_KEY = Some ''secret'',
      axios_post = (\<lambda>r. case payload r of FormData _ \<Rightarrow> Inr ''QmImage''
                                       | Json _ \<Rightarrow> Inr ''QmMeta''),
      generateSigner = (\<lambda>_. Inr ''Mint111''),
      transactionBuilder = (\<lambda>_. Inr ()),
      sendAndConfirm = (\<lambda>_. Inr [1, 2, 3]),
      base58_deserialize = (\<lambda>_. Inr ''5sig'')\<rparr>"

text \<open>The pinning service is unreachable: the image upload is rejected.\<close>

definition env_offline :: env where
  "env_offline = env_ok\<lparr>axios_post := (\<lambda>_. Inl (Error ''Network Error''))\<rparr>"

text \<open>The image is pinned, the metadata upload is rejected.\<close>

definition env_json_rejected :: env where
  "env_json_rejected =
     env_ok\<lparr>axios_post := (\<lambda>r. case payload r of FormData _ \<Rightarrow> Inr ''QmImage''
                                          | Json _ \<Rightarrow> Inl (Error ''401''))\<rparr>"

text \<open>Both uploads succeed and the signer is generated; the wallet has lost its public
  key, so the builder call throws.\<close>

definition env_key_lost :: env where
  "env_key_lost = env_ok\<lparr>transactionBuilder := (\<lambda>_. Inl (Error ''WalletNotConnectedError''))\<rparr>"

text \<open>Both uploads succeed, the user refuses to sign the transaction.\<close>

definition env_sign_refused :: env where
  "env_sign_refused = env_ok\<lparr>sendAndConfirm := (\<lambda>_. Inl (Error ''User rejected the request''))\<rparr>"

definition props_ok :: props where
  "props_ok = \<lparr>publicKey = Some ''Pk1'', wallet = Some (Wallet ''phantom'')\<rparr>"

definition props_disconnected :: props where
  "props_disconnected = \<lparr>publicKey = None, wallet = None\<rparr>"

text \<open>A freshly filled form; the same form with the core standard selected; the same form
  with the name left empty; and a filled form after an earlier successful mint.\<close>

definition world_filled :: world where
  "world_filled =
     \<lparr>st = \<lparr>name = ''Cat'', symbol = ''CAT'', description = ''A cat'',
            image_file = Some (File ''cat.png''), isMinting = False, transactionLink = [],
            metadataUri = [], imageUrl = [], useCore = False\<rparr>,
      toasts = [], calls = [], console = []\<rparr>"

definition world_core :: world where
  "world_core = world_filled\<lparr>st := (st world_filled)\<lparr>useCore := True\<rparr>\<rparr>"

definition world_unnamed :: world where
  "world_unnamed = world_filled\<lparr>st := (st world_filled)\<lparr>name := []\<rparr>\<rparr>"

definition world_second :: world where
  "world_second =
     world_filled\<lparr>st := (st world_filled)
       \<lparr>transactionLink := ''https://explorer.solana.com/tx/4old?cluster=devnet'',
        metadataUri := ''https://gateway.pinata.cloud/ipfs/QmOldMeta'',
        imageUrl := ''https://gateway.pinata.cloud/ipfs/QmOldImage''\<rparr>\<rparr>"

section \<open>Properties of the attribute list editor\<close>

lemma filter_index_in_range:
  "n \<le> k \<Longrightarrow> k < n + length xs \<Longrightarrow>
   map snd (filter (\<lambda>(i, _). i \<noteq> k) (enumerate n xs)) = take (k - n) xs @ drop (Suc (k - n)) xs"
proof (induction xs arbitrary: n)
  case Nil
  then show ?case by simp
next
  case (Cons x xs)
  show ?case
  proof (cases "n = k")
    case True
    have "filter (\<lambda>(i, _). i \<noteq> k) (enumerate (Suc k) xs) = enumerate (Suc k) xs"
      by (rule filter_True) (auto simp: in_set_enumerate_eq)
    with True show ?thesis by simp
  next
    case False
    with Cons.prems have later: "Suc n \<le> k" "k < Suc n + length xs" by simp_all
    then obtain m where m: "k - n = Suc m" "k - Suc n = m"
      by (cases "k - n") auto
    from Cons.IH [OF later] False m show ?thesis
      by simp
  qed
qed

text \<open>
  Claim C7. For every attribute list and every in-range index \<open>i\<close>, the remove-attribute
  operation returns the list with exactly the element at position \<open>i\<close> deleted: the
  elements before \<open>i\<close> followed by the elements after \<open>i\<close>, in their original order.
\<close>

theorem handleRemoveAttribute_in_range:
  assumes "0 \<le> index" and "index < int (length attributes)"
  shows "handleRemoveAttribute attributes index =
           take (nat index) attributes @ drop (Suc (nat index)) attributes"
proof -
  have eq: "(\<lambda>(i, _::attribute). int i \<noteq> index) = (\<lambda>(i, _). i \<noteq> nat index)"
    using assms by (auto simp: fun_eq_iff)
  have "nat index < 0 + length attributes"
    using assms by simp
  with filter_index_in_range [of 0 "nat index" attributes] show ?thesis
    by (simp add: handleRemoveAttribute_def eq)
qed

theorem handleRemoveAttribute_in_range_witness:
  "handleRemoveAttribute
     [\<lparr>trait_type = ''a'', trait_value = ''1''\<rparr>,
      \<lparr>trait_type = ''b'', trait_value = ''2''\<rparr>,
      \<lparr>trait_type = ''c'', trait_value = ''3''\<rparr>] 1 =
   [\<lparr>trait_type = ''a'', trait_value = ''1''\<rparr>, \<lparr>trait_type = ''c'', trait_value = ''3''\<rparr>]"
  using handleRemoveAttribute_in_range
    [of 1 "[\<lparr>trait_type = ''a'', trait_value = ''1''\<rparr>,
            \<lparr>trait_type = ''b'', trait_value = ''2''\<rparr>,
            \<lparr>trait_type = ''c'', trait_value = ''3''\<rparr>]"]
  by simp

text \<open>
  Claim C9. For every attribute list and every index that is out of range (negative, or at
  least the length of the list), the remove-attribute operation returns the input list:
  nothing is removed, and the operation has no failing branch.
\<close>

theorem handleRemoveAttribute_out_of_range:
  assumes "index < 0 \<or> int (length attributes) \<le> index"
  shows "handleRemoveAttribute attributes index = attributes"
proof -
  have "filter (\<lambda>(i, _). int i \<noteq> index) (enumerate 0 attributes) = enumerate 0 attributes"
    using assms by (intro filter_True) (auto simp: in_set_enumerate_eq)
  then show ?thesis
    by (simp add: handleRemoveAttribute_def)
qed

theorem handleRemoveAttribute_out_of_range_witness:
  "handleRemoveAttribute
     [\<lparr>trait_type = ''a'', trait_value = ''1''\<rparr>, \<lparr>trait_type = ''b'', trait_value = ''2''\<rparr>] (- 1) =
     [\<lparr>trait_type = ''a'', trait_value = ''1''\<rparr>, \<lparr>trait_type = ''b'', trait_value = ''2''\<rparr>]
   \<and> handleRemoveAttribute
     [\<lparr>trait_type = ''a'', trait_value = ''1''\<rparr>, \<lparr>trait_type = ''b'', trait_value = ''2''\<rparr>] 2 =
     [\<lparr>trait_type = ''a'', trait_value = ''1''\<rparr>, \<lparr>trait_type = ''b'', trait_value = ''2''\<rparr>]"
  using handleRemoveAttribute_out_of_range
    [of "- 1" "[\<lparr>trait_type = ''a'', trait_value = ''1''\<rparr>, \<lparr>trait_type = ''b'', trait_value = ''2''\<rparr>]"]
    handleRemoveAttribute_out_of_range
    [of 2 "[\<lparr>trait_type = ''a'', trait_value = ''1''\<rparr>, \<lparr>trait_type = ''b'', trait_value = ''2''\<rparr>]"]
  by simp

section \<open>Properties of the minting form\<close>

subsection \<open>Auxiliary facts\<close>

lemmas effects = setName_def setSymbol_def setDescription_def setImage_def setIsMinting_def
  setTransactionLink_def setMetadataUri_def setImageUrl_def toast_def issue_def
  console_log_def console_error_def

lemmas examples = env_ok_def env_offline_def env_json_rejected_def env_key_lost_def
  env_sign_refused_def
  props_ok_def props_disconnected_def world_filled_def world_core_def world_unnamed_def
  world_second_def

lemmas requests = pinFileRequest_def pinJSONRequest_def metadata_def gatewayUrl_def
  explorerUrl_def createUmi_def

lemma posted_metadata_append:
  "posted_metadata (xs @ ys) = posted_metadata xs @ posted_metadata ys"
  by (induction xs rule: posted_metadata.induct) (auto split: body.splits)

lemma submissions_append: "submissions (xs @ ys) = submissions xs @ submissions ys"
  by (induction xs rule: submissions.induct) auto

text \<open>Past the guards, the handler is the \<^verbatim>\<open>try\<close>/\<^verbatim>\<open>catch\<close>/\<^verbatim>\<open>finally\<close> statement.\<close>

lemma handleMint_validated:
  "validated p (st w) \<Longrightarrow>
   handleMint e p w =
     setIsMinting False
       (case tryBlock e p (st w) (setIsMinting True w) of
          Inr w' \<Rightarrow> w'
        | Inl (err, w') \<Rightarrow>
            toast (Toast ''Error minting NFT'' ''Please try again'' (Some ''destructive''))
              (console_error ''Error minting NFT:'' err w'))"
  by (auto simp: handleMint_def validated_def Let_def)

text \<open>What a throwing \<^verbatim>\<open>try\<close> block leaves untouched.\<close>

lemma tryBlock_Inl_frame:
  assumes "tryBlock e p s w = Inl (err, w')"
  shows "toasts w' = toasts w"
    and "name (st w') = name (st w)"
    and "symbol (st w') = symbol (st w)"
    and "description (st w') = description (st w)"
    and "image_file (st w') = image_file (st w)"
    and "useCore (st w') = useCore (st w)"
  using assms
  by (auto simp: tryBlock_def Let_def effects split: sum.splits)

text \<open>A \<^verbatim>\<open>try\<close> block that completes has had six answers from the environment, and its
  final world is determined by them.\<close>

lemma tryBlock_Inr_trace:
  assumes "tryBlock e p s w = Inr w'"
  shows "\<exists>imageHash metadataHash assetOrMint tx_signature signature.
           axios_post e (pinFileRequest e (the (image_file s))) = Inr imageHash \<and>
           axios_post e (pinJSONRequest e (metadata s (gatewayUrl imageHash))) = Inr metadataHash \<and>
           generateSigner e (createUmi p s) = Inr assetOrMint \<and>
           transactionBuilder e
             (if useCore s then Create (createUmi p s) assetOrMint (name s) (gatewayUrl metadataHash)
              else CreateNft (createUmi p s) assetOrMint 0 (name s) (gatewayUrl metadataHash))
             = Inr () \<and>
           sendAndConfirm e
             (if useCore s then Create (createUmi p s) assetOrMint (name s) (gatewayUrl metadataHash)
              else CreateNft (createUmi p s) assetOrMint 0 (name s) (gatewayUrl metadataHash))
             = Inr tx_signature \<and>
           base58_deserialize e tx_signature = Inr signature \<and>
           w' = w\<lparr>st := (st w)\<lparr>name := [], symbol := [], description := [], image_file := None,
                                 transactionLink := explorerUrl signature,
                                 metadataUri := gatewayUrl metadataHash,
                                 imageUrl := gatewayUrl imageHash\<rparr>,
                  toasts := toasts w @ [Toast ''NFT minted successfully!''
                                          (''Mint address: '' @ assetOrMint) None],
                  calls := calls w @
                    [AxiosPost (pinFileRequest e (the (image_file s))),
                     AxiosPost (pinJSONRequest e (metadata s (gatewayUrl imageHash))),
                     SendAndConfirm
                       (if useCore s
                        then Create (createUmi p s) assetOrMint (name s) (gatewayUrl metadataHash)
                        else CreateNft (createUmi p s) assetOrMint 0 (name s) (gatewayUrl metadataHash))],
                  console := console w @
                    [ConsoleLog ''Image uploaded to IPFS at:'' (gatewayUrl imageHash),
                     ConsoleLog ''Metadata uploaded to IPFS at:'' (gatewayUrl metadataHash)]\<rparr>"
  using assms
  by (auto simp: tryBlock_def Let_def effects split: sum.splits if_splits)

text \<open>The example inputs pass the guards, and the runs used below end as described.\<close>

lemma validated_examples:
  "validated props_ok (st world_filled)"
  "validated props_ok (st world_core)"
  "validated props_ok (st world_second)"
  by (simp_all add: validated_def examples)

lemma tryBlock_env_ok:
  "\<exists>w'. tryBlock env_ok props_ok (st world_filled) (setIsMinting True world_filled) = Inr w'"
  by (simp add: tryBlock_def Let_def effects examples requests)

lemma tryBlock_env_offline:
  "\<exists>err w'. tryBlock env_offline props_ok (st world_filled) (setIsMinting True world_filled)
     = Inl (err, w')"
  by (simp add: tryBlock_def Let_def effects examples requests)

lemma tryBlock_env_json_rejected:
  "\<exists>err w'. tryBlock env_json_rejected props_ok (st world_filled) (setIsMinting True world_filled)
     = Inl (err, w')"
  by (simp add: tryBlock_def Let_def effects examples requests)

lemma tryBlock_env_sign_refused:
  "\<exists>err w'. tryBlock env_sign_refused props_ok (st world_second) (setIsMinting True world_second)
     = Inl (err, w')"
  by (simp add: tryBlock_def Let_def effects examples requests)

subsection \<open>The metadata document\<close>

text \<open>
  Claim C1, as stated, fails: the metadata document the handler builds and uploads has no
  \<open>attributes\<close> field. On a filled form with every step succeeding, exactly one JSON
  document is posted, and it is not an object with a field \<open>attributes\<close>.
\<close>

theorem metadata_attributes_counterexample:
  "map (has_field ''attributes'')
     (posted_metadata (calls (handleMint env_ok props_ok world_filled))) = [False]"
  by (simp add: handleMint_def tryBlock_def Let_def effects examples requests)

text \<open>
  Claim C1, amended. The metadata document built for a mint attempt is the object with
  exactly the four fields \<open>name\<close>, \<open>description\<close>, \<open>symbol\<close> and \<open>image\<close>, in this order:
  the first three are the form's values at submission, the fourth is the retrieval URL of
  the uploaded image. It is the one JSON document the attempt posts, as soon as the image
  upload has succeeded (whatever happens afterwards).
\<close>

theorem metadata_four_fields:
  assumes "validated p (st w)"
    and "image_file (st w) = Some img"
    and "axios_post e (pinFileRequest e img) = Inr imageHash"
  shows "posted_metadata (calls (handleMint e p w)) =
           posted_metadata (calls w) @
             [JObject [(''name'', JString (name (st w))),
                       (''description'', JString (description (st w))),
                       (''symbol'', JString (symbol (st w))),
                       (''image'', JString (gatewayUrl imageHash))]]"
  using assms(2,3)
  by (simp add: handleMint_validated [OF assms(1)] tryBlock_def Let_def effects
      posted_metadata_append pinFileRequest_def pinJSONRequest_def metadata_def
      split: sum.splits)

theorem metadata_four_fields_witness:
  "validated props_ok (st world_filled) \<and>
   axios_post env_ok (pinFileRequest env_ok (File ''cat.png'')) = Inr ''QmImage'' \<and>
   posted_metadata (calls (handleMint env_ok props_ok world_filled)) =
     [JObject [(''name'', JString ''Cat''),
               (''description'', JString ''A cat''),
               (''symbol'', JString ''CAT''),
               (''image'', JString ''https://gateway.pinata.cloud/ipfs/QmImage'')]]"
proof -
  have img: "image_file (st world_filled) = Some (File ''cat.png'')"
    by (simp add: examples)
  have up: "axios_post env_ok (pinFileRequest env_ok (File ''cat.png'')) = Inr ''QmImage''"
    by (simp add: examples requests)
  from metadata_four_fields [OF validated_examples(1) img up] validated_examples(1) up
  show ?thesis
    by (simp add: world_filled_def gatewayUrl_def)
qed

subsection \<open>Precondition failures\<close>

text \<open>
  Claim C2. Whenever the signing identity is absent (no public key or no wallet) or one of
  the fields name, symbol, description, image is empty, the handler shows one destructive
  toast and returns: it issues no external call, and it changes no state cell (the
  submitting flag \<open>isMinting\<close> included).
\<close>

theorem handleMint_precondition_failure:
  assumes "publicKey p = None \<or> wallet p = None \<or> name (st w) = [] \<or> symbol (st w) = [] \<or>
           description (st w) = [] \<or> image_file (st w) = None"
  shows "calls (handleMint e p w) = calls w \<and>
         st (handleMint e p w) = st w \<and>
         toasts (handleMint e p w) = toasts w @
           [if publicKey p = None \<or> wallet p = None
            then Toast ''Wallet not connected'' ''Please connect your wallet first''
                   (Some ''destructive'')
            else Toast ''Missing information'' ''Please fill in all fields''
                   (Some ''destructive'')]"
  using assms by (auto simp: handleMint_def Let_def toast_def)

theorem handleMint_precondition_failure_witness:
  "calls (handleMint env_ok props_disconnected world_filled) = [] \<and>
   st (handleMint env_ok props_disconnected world_filled) = st world_filled \<and>
   toasts (handleMint env_ok props_disconnected world_filled) =
     [Toast ''Wallet not connected'' ''Please connect your wallet first'' (Some ''destructive'')] \<and>
   calls (handleMint env_ok props_ok world_unnamed) = [] \<and>
   st (handleMint env_ok props_ok world_unnamed) = st world_unnamed \<and>
   toasts (handleMint env_ok props_ok world_unnamed) =
     [Toast ''Missing information'' ''Please fill in all fields'' (Some ''destructive'')]"
  using handleMint_precondition_failure [of props_disconnected world_filled env_ok]
    handleMint_precondition_failure [of props_ok world_unnamed env_ok]
  by (simp add: props_disconnected_def props_ok_def world_unnamed_def world_filled_def)

subsection \<open>Successful runs\<close>

text \<open>
  Claim C3. Every successful run of the mint operation (the guards pass and the
  \<^verbatim>\<open>try\<close> block completes) issues exactly three external calls, in this order: the post
  of the image file to the pinning service's \<^verbatim>\<open>pinFileToIPFS\<close> endpoint; the post, to its
  \<^verbatim>\<open>pinJSONToIPFS\<close> endpoint, of the metadata document that carries the form's name,
  description and symbol and the retrieval URL of the image just pinned; and one on-chain
  submission, of the builder for the selected standard, referring to the retrieval URL of
  the metadata just pinned.
\<close>

theorem handleMint_success_calls:
  assumes "validated p (st w)"
    and "image_file (st w) = Some img"
    and "wallet p = Some wal"
    and "tryBlock e p (st w) (setIsMinting True w) = Inr w'"
  shows "\<exists>imageHash metadataHash assetOrMint.
           (let req1 = \<lparr>url = ''https://api.pinata.cloud/pinning/pinFileToIPFS'',
                        payload = FormData [(''file'', img)],
                        headers = [(''pinata_api_key'', PINATA_API_KEY e),
                                   (''pinata_secret_api_key'', PINATA_SECRET_API_KEY e),
                                   (''Content-Type'', Some ''multipart/form-data'')]\<rparr>;
                req2 = \<lparr>url = ''https://api.pinata.cloud/pinning/pinJSONToIPFS'',
                        payload = Json (JObject
                          [(''name'', JString (name (st w))),
                           (''description'', JString (description (st w))),
                           (''symbol'', JString (symbol (st w))),
                           (''image'', JString (''https://gateway.pinata.cloud/ipfs/'' @ imageHash))]),
                        headers = [(''pinata_api_key'', PINATA_API_KEY e),
                                   (''pinata_secret_api_key'', PINATA_SECRET_API_KEY e),
                                   (''Content-Type'', Some ''application/json'')]\<rparr>;
                u = \<lparr>umi_endpoint = ''https://api.devnet.solana.com'',
                     umi_plugin = (if useCore (st w) then MplCore else MplTokenMetadata),
                     umi_identity = adapter wal\<rparr>;
                uri = ''https://gateway.pinata.cloud/ipfs/'' @ metadataHash;
                builder = (if useCore (st w) then Create u assetOrMint (name (st w)) uri
                           else CreateNft u assetOrMint 0 (name (st w)) uri)
            in axios_post e req1 = Inr imageHash \<and>
               axios_post e req2 = Inr metadataHash \<and>
               generateSigner e u = Inr assetOrMint \<and>
               calls (handleMint e p w) =
                 calls w @ [AxiosPost req1, AxiosPost req2, SendAndConfirm builder])"
proof -
  from tryBlock_Inr_trace [OF assms(4)] obtain imageHash metadataHash assetOrMint where
    answers: "axios_post e (pinFileRequest e (the (image_file (st w)))) = Inr imageHash"
      "axios_post e (pinJSONRequest e (metadata (st w) (gatewayUrl imageHash))) = Inr metadataHash"
      "generateSigner e (createUmi p (st w)) = Inr assetOrMint"
    and log: "calls w' = calls (setIsMinting True w) @
       [AxiosPost (pinFileRequest e (the (image_file (st w)))),
        AxiosPost (pinJSONRequest e (metadata (st w) (gatewayUrl imageHash))),
        SendAndConfirm
          (if useCore (st w)
           then Create (createUmi p (st w)) assetOrMint (name (st w)) (gatewayUrl metadataHash)
           else CreateNft (createUmi p (st w)) assetOrMint 0 (name (st w))
                  (gatewayUrl metadataHash))]"
    by force
  have final: "calls (handleMint e p w) = calls w'"
    using assms(4) by (simp add: handleMint_validated [OF assms(1)] setIsMinting_def)
  have start: "calls (setIsMinting True w) = calls w"
    by (simp add: setIsMinting_def)
  from answers log assms(2,3) show ?thesis
    unfolding final start Let_def
    by (intro exI [of _ imageHash] exI [of _ metadataHash] exI [of _ assetOrMint])
      (simp add: requests)
qed

theorem handleMint_success_calls_witness:
  "validated props_ok (st world_filled) \<and>
   (\<exists>w'. tryBlock env_ok props_ok (st world_filled) (setIsMinting True world_filled) = Inr w') \<and>
   calls (handleMint env_ok props_ok world_filled) =
     [AxiosPost
        \<lparr>url = ''https://api.pinata.cloud/pinning/pinFileToIPFS'',
         payload = FormData [(''file'', File ''cat.png'')],
         headers = [(''pinata_api_key'', Some ''key''),
                    (''pinata_secret_api_key'', Some ''secret''),
                    (''Content-Type'', Some ''multipart/form-data'')]\<rparr>,
      AxiosPost
        \<lparr>url = ''https://api.pinata.cloud/pinning/pinJSONToIPFS'',
         payload = Json (JObject
           [(''name'', JString ''Cat''),
            (''description'', JString ''A cat''),
            (''symbol'', JString ''CAT''),
            (''image'', JString ''https://gateway.pinata.cloud/ipfs/QmImage'')]),
         headers = [(''pinata_api_key'', Some ''key''),
                    (''pinata_secret_api_key'', Some ''secret''),
                    (''Content-Type'', Some ''application/json'')]\<rparr>,
      SendAndConfirm
        (CreateNft
           \<lparr>umi_endpoint = ''https://api.devnet.solana.com'',
            umi_plugin = MplTokenMetadata, umi_identity = ''phantom''\<rparr>
           ''Mint111'' 0 ''Cat'' ''https://gateway.pinata.cloud/ipfs/QmMeta'')]"
proof -
  have img: "image_file (st world_filled) = Some (File ''cat.png'')"
    by (simp add: examples)
  have wal: "wallet props_ok = Some (Wallet ''phantom'')"
    by (simp add: examples)
  from tryBlock_env_ok obtain w' where
    run: "tryBlock env_ok props_ok (st world_filled) (setIsMinting True world_filled) = Inr w'" ..
  from handleMint_success_calls [OF validated_examples(1) img wal run]
  obtain imageHash metadataHash assetOrMint where
    "axios_post env_ok
       \<lparr>url = ''https://api.pinata.cloud/pinning/pinFileToIPFS'',
        payload = FormData [(''file'', File ''cat.png'')],
        headers = [(''pinata_api_key'', PINATA_API_KEY env_ok),
                   (''pinata_secret_api_key'', PINATA_SECRET_API_KEY env_ok),
                   (''Content-Type'', Some ''multipart/form-data'')]\<rparr> = Inr imageHash"
    "axios_post env_ok
       \<lparr>url = ''https://api.pinata.cloud/pinning/pinJSONToIPFS'',
        payload = Json (JObject
          [(''name'', JString (name (st world_filled))),
           (''description'', JString (description (st world_filled))),
           (''symbol'', JString (symbol (st world_filled))),
           (''image'', JString (''https://gateway.pinata.cloud/ipfs/'' @ imageHash))]),
        headers = [(''pinata_api_key'', PINATA_API_KEY env_ok),
                   (''pinata_secret_api_key'', PINATA_SECRET_API_KEY env_ok),
                   (''Content-Type'', Some ''application/json'')]\<rparr> = Inr metadataHash"
    "generateSigner env_ok
       \<lparr>umi_endpoint = ''https://api.devnet.solana.com'',
        umi_plugin = (if useCore (st world_filled) then MplCore else MplTokenMetadata),
        umi_identity = adapter (Wallet ''phantom'')\<rparr> = Inr assetOrMint"
    and log: "calls (handleMint env_ok props_ok world_filled) =
      calls world_filled @
        [AxiosPost
           \<lparr>url = ''https://api.pinata.cloud/pinning/pinFileToIPFS'',
            payload = FormData [(''file'', File ''cat.png'')],
            headers = [(''pinata_api_key'', PINATA_API_KEY env_ok),
                       (''pinata_secret_api_key'', PINATA_SECRET_API_KEY env_ok),
                       (''Content-Type'', Some ''multipart/form-data'')]\<rparr>,
         AxiosPost
           \<lparr>url = ''https://api.pinata.cloud/pinning/pinJSONToIPFS'',
            payload = Json (JObject
              [(''name'', JString (name (st world_filled))),
               (''description'', JString (description (st world_filled))),
               (''symbol'', JString (symbol (st world_filled))),
               (''image'', JString (''https://gateway.pinata.cloud/ipfs/'' @ imageHash))]),
            headers = [(''pinata_api_key'', PINATA_API_KEY env_ok),
                       (''pinata_secret_api_key'', PINATA_SECRET_API_KEY env_ok),
                       (''Content-Type'', Some ''application/json'')]\<rparr>,
         SendAndConfirm
           (if useCore (st world_filled)
            then Create
                   \<lparr>umi_endpoint = ''https://api.devnet.solana.com'',
                    umi_plugin = (if useCore (st world_filled) then MplCore else MplTokenMetadata),
                    umi_identity = adapter (Wallet ''phantom'')\<rparr>
                   assetOrMint (name (st world_filled))
                   (''https://gateway.pinata.cloud/ipfs/'' @ metadataHash)
            else CreateNft
                   \<lparr>umi_endpoint = ''https://api.devnet.solana.com'',
                    umi_plugin = (if useCore (st world_filled) then MplCore else MplTokenMetadata),
                    umi_identity = adapter (Wallet ''phantom'')\<rparr>
                   assetOrMint 0 (name (st world_filled))
                   (''https://gateway.pinata.cloud/ipfs/'' @ metadataHash))]"
    unfolding Let_def by blast
  then have "imageHash = ''QmImage''" "metadataHash = ''QmMeta''" "assetOrMint = ''Mint111''"
    by (simp_all add: env_ok_def)
  with log validated_examples(1) tryBlock_env_ok show ?thesis
    by (simp add: env_ok_def world_filled_def)
qed

text \<open>
  Claim C6. After every successful mint run the form's base fields are reset (name, symbol
  and description to the empty string, the image to none), and the state holds the
  retrieval URL of the image, the retrieval URL of the metadata and the block-explorer
  link built from the base58 text of the transaction signature; the result panel shows
  these three.
\<close>

theorem handleMint_success_state:
  assumes "validated p (st w)"
    and "image_file (st w) = Some img"
    and "tryBlock e p (st w) (setIsMinting True w) = Inr w'"
  shows "name (st (handleMint e p w)) = [] \<and>
         symbol (st (handleMint e p w)) = [] \<and>
         description (st (handleMint e p w)) = [] \<and>
         image_file (st (handleMint e p w)) = None \<and>
         (\<exists>imageHash metadataHash assetOrMint tx_signature signature.
            axios_post e (pinFileRequest e img) = Inr imageHash \<and>
            axios_post e (pinJSONRequest e (metadata (st w) (gatewayUrl imageHash))) =
              Inr metadataHash \<and>
            generateSigner e (createUmi p (st w)) = Inr assetOrMint \<and>
            sendAndConfirm e
              (if useCore (st w)
               then Create (createUmi p (st w)) assetOrMint (name (st w)) (gatewayUrl metadataHash)
               else CreateNft (createUmi p (st w)) assetOrMint 0 (name (st w))
                      (gatewayUrl metadataHash)) = Inr tx_signature \<and>
            base58_deserialize e tx_signature = Inr signature \<and>
            imageUrl (st (handleMint e p w)) = gatewayUrl imageHash \<and>
            metadataUri (st (handleMint e p w)) = gatewayUrl metadataHash \<and>
            transactionLink (st (handleMint e p w)) = explorerUrl signature \<and>
            resultPanel (st (handleMint e p w)) =
              Some (explorerUrl signature, gatewayUrl imageHash, gatewayUrl metadataHash))"
proof -
  from tryBlock_Inr_trace [OF assms(3)]
  obtain imageHash metadataHash assetOrMint tx_signature signature
    where env: "axios_post e (pinFileRequest e (the (image_file (st w)))) = Inr imageHash"
      "axios_post e (pinJSONRequest e (metadata (st w) (gatewayUrl imageHash))) = Inr metadataHash"
      "generateSigner e (createUmi p (st w)) = Inr assetOrMint"
      "sendAndConfirm e
         (if useCore (st w)
          then Create (createUmi p (st w)) assetOrMint (name (st w)) (gatewayUrl metadataHash)
          else CreateNft (createUmi p (st w)) assetOrMint 0 (name (st w))
                 (gatewayUrl metadataHash)) = Inr tx_signature"
      "base58_deserialize e tx_signature = Inr signature"
    and st': "st w' = (st w)\<lparr>isMinting := True, name := [], symbol := [], description := [],
                             image_file := None, transactionLink := explorerUrl signature,
                             metadataUri := gatewayUrl metadataHash,
                             imageUrl := gatewayUrl imageHash\<rparr>"
    by (auto simp: setIsMinting_def)
  have final: "st (handleMint e p w) = (st w')\<lparr>isMinting := False\<rparr>"
    using assms(3) by (simp add: handleMint_validated [OF assms(1)] setIsMinting_def)
  have fields: "name (st (handleMint e p w)) = []" "symbol (st (handleMint e p w)) = []"
    "description (st (handleMint e p w)) = []" "image_file (st (handleMint e p w)) = None"
    "imageUrl (st (handleMint e p w)) = gatewayUrl imageHash"
    "metadataUri (st (handleMint e p w)) = gatewayUrl metadataHash"
    "transactionLink (st (handleMint e p w)) = explorerUrl signature"
    by (simp_all add: final st')
  have panel: "resultPanel (st (handleMint e p w)) =
      Some (explorerUrl signature, gatewayUrl imageHash, gatewayUrl metadataHash)"
    by (simp add: resultPanel_def fields explorerUrl_def)
  from env assms(2) fields panel show ?thesis
    by (intro conjI exI [of _ imageHash] exI [of _ metadataHash] exI [of _ assetOrMint]
        exI [of _ tx_signature] exI [of _ signature]) simp_all
qed

theorem handleMint_success_state_witness:
  "validated props_ok (st world_filled) \<and>
   (\<exists>w'. tryBlock env_ok props_ok (st world_filled) (setIsMinting True world_filled) = Inr w') \<and>
   name (st (handleMint env_ok props_ok world_filled)) = [] \<and>
   symbol (st (handleMint env_ok props_ok world_filled)) = [] \<and>
   description (st (handleMint env_ok props_ok world_filled)) = [] \<and>
   image_file (st (handleMint env_ok props_ok world_filled)) = None \<and>
   resultPanel (st (handleMint env_ok props_ok world_filled)) =
     Some (''https://explorer.solana.com/tx/5sig?cluster=devnet'',
           ''https://gateway.pinata.cloud/ipfs/QmImage'',
           ''https://gateway.pinata.cloud/ipfs/QmMeta'')"
proof -
  have img: "image_file (st world_filled) = Some (File ''cat.png'')"
    by (simp add: examples)
  from tryBlock_env_ok obtain w' where
    run: "tryBlock env_ok props_ok (st world_filled) (setIsMinting True world_filled) = Inr w'" ..
  from handleMint_success_state [OF validated_examples(1) img run]
  obtain imageHash metadataHash assetOrMint tx_signature signature where
    reset: "name (st (handleMint env_ok props_ok world_filled)) = []"
      "symbol (st (handleMint env_ok props_ok world_filled)) = []"
      "description (st (handleMint env_ok props_ok world_filled)) = []"
      "image_file (st (handleMint env_ok props_ok world_filled)) = None"
    and answers: "axios_post env_ok (pinFileRequest env_ok (File ''cat.png'')) = Inr imageHash"
      "axios_post env_ok
         (pinJSONRequest env_ok (metadata (st world_filled) (gatewayUrl imageHash))) =
       Inr metadataHash"
      "sendAndConfirm env_ok
         (if useCore (st world_filled)
          then Create (createUmi props_ok (st world_filled)) assetOrMint
                 (name (st world_filled)) (gatewayUrl metadataHash)
          else CreateNft (createUmi props_ok (st world_filled)) assetOrMint 0
                 (name (st world_filled)) (gatewayUrl metadataHash)) = Inr tx_signature"
      "base58_deserialize env_ok tx_signature = Inr signature"
    and panel: "resultPanel (st (handleMint env_ok props_ok world_filled)) =
        Some (explorerUrl signature, gatewayUrl imageHash, gatewayUrl metadataHash)"
    by blast
  from answers have "imageHash = ''QmImage''" "metadataHash = ''QmMeta''" "signature = ''5sig''"
    by (simp_all add: env_ok_def pinFileRequest_def pinJSONRequest_def)
  with reset panel validated_examples(1) tryBlock_env_ok show ?thesis
    by (simp add: gatewayUrl_def explorerUrl_def)
qed

subsection \<open>The on-chain step\<close>

text \<open>
  Claim C4. In every mint attempt that reaches the on-chain step (the guards pass, both
  uploads succeed, the signer of the new asset is generated and the builder call of the
  selected standard returns), the attempt submits exactly one transaction builder, and
  the issuance mode flag \<open>useCore\<close> selects it: the core-asset builder \<open>Create\<close> on a Umi
  with the core plugin when the flag is set, the token-metadata builder \<open>CreateNft\<close> on a
  Umi with the token-metadata plugin when it is not. The two are distinct constructors, and
  the attempt's only submission is one of them: never both.
\<close>

theorem handleMint_issuance_path:
  assumes "validated p (st w)"
    and "image_file (st w) = Some img"
    and "wallet p = Some wal"
    and "axios_post e (pinFileRequest e img) = Inr imageHash"
    and "axios_post e (pinJSONRequest e (metadata (st w) (gatewayUrl imageHash))) = Inr metadataHash"
    and "generateSigner e (createUmi p (st w)) = Inr assetOrMint"
    and "transactionBuilder e
           (if useCore (st w)
            then Create (createUmi p (st w)) assetOrMint (name (st w)) (gatewayUrl metadataHash)
            else CreateNft (createUmi p (st w)) assetOrMint 0 (name (st w))
                   (gatewayUrl metadataHash)) = Inr ()"
  shows "submissions (calls (handleMint e p w)) =
           submissions (calls w) @
             [if useCore (st w)
              then Create
                     \<lparr>umi_endpoint = ''https://api.devnet.solana.com'', umi_plugin = MplCore,
                      umi_identity = adapter wal\<rparr>
                     assetOrMint (name (st w))
                     (''https://gateway.pinata.cloud/ipfs/'' @ metadataHash)
              else CreateNft
                     \<lparr>umi_endpoint = ''https://api.devnet.solana.com'',
                      umi_plugin = MplTokenMetadata, umi_identity = adapter wal\<rparr>
                     assetOrMint 0 (name (st w))
                     (''https://gateway.pinata.cloud/ipfs/'' @ metadataHash)]"
proof -
  have log: "submissions (calls (handleMint e p w)) =
      submissions (calls w) @
        [if useCore (st w)
         then Create (createUmi p (st w)) assetOrMint (name (st w)) (gatewayUrl metadataHash)
         else CreateNft (createUmi p (st w)) assetOrMint 0 (name (st w))
                (gatewayUrl metadataHash)]"
    using assms(2,4-7)
    by (simp add: handleMint_validated [OF assms(1)] tryBlock_def Let_def effects
        submissions_append split: sum.splits)
  show ?thesis
    unfolding log using assms(3) by (simp add: createUmi_def gatewayUrl_def)
qed

theorem handleMint_issuance_path_witness:
  "submissions (calls (handleMint env_ok props_ok world_filled)) =
     [CreateNft
        \<lparr>umi_endpoint = ''https://api.devnet.solana.com'', umi_plugin = MplTokenMetadata,
         umi_identity = ''phantom''\<rparr>
        ''Mint111'' 0 ''Cat'' ''https://gateway.pinata.cloud/ipfs/QmMeta''] \<and>
   submissions (calls (handleMint env_ok props_ok world_core)) =
     [Create
        \<lparr>umi_endpoint = ''https://api.devnet.solana.com'', umi_plugin = MplCore,
         umi_identity = ''phantom''\<rparr>
        ''Mint111'' ''Cat'' ''https://gateway.pinata.cloud/ipfs/QmMeta'']"
proof -
  have wal: "wallet props_ok = Some (Wallet ''phantom'')"
    by (simp add: examples)
  have token: "submissions (calls (handleMint env_ok props_ok world_filled)) =
     [CreateNft
        \<lparr>umi_endpoint = ''https://api.devnet.solana.com'', umi_plugin = MplTokenMetadata,
         umi_identity = ''phantom''\<rparr>
        ''Mint111'' 0 ''Cat'' ''https://gateway.pinata.cloud/ipfs/QmMeta'']"
    using handleMint_issuance_path [OF validated_examples(1) _ wal,
        of "File ''cat.png''" env_ok "''QmImage''" "''QmMeta''" "''Mint111''"]
    by (simp add: env_ok_def world_filled_def pinFileRequest_def pinJSONRequest_def)
  have core: "submissions (calls (handleMint env_ok props_ok world_core)) =
     [Create
        \<lparr>umi_endpoint = ''https://api.devnet.solana.com'', umi_plugin = MplCore,
         umi_identity = ''phantom''\<rparr>
        ''Mint111'' ''Cat'' ''https://gateway.pinata.cloud/ipfs/QmMeta'']"
    using handleMint_issuance_path [OF validated_examples(2) _ wal,
        of "File ''cat.png''" env_ok "''QmImage''" "''QmMeta''" "''Mint111''"]
    by (simp add: env_ok_def world_core_def world_filled_def pinFileRequest_def
        pinJSONRequest_def)
  from token core show ?thesis ..
qed

text \<open>
  When the builder call throws instead (the wallet identity has lost its key, say), the
  attempt submits nothing and ends in the \<^verbatim>\<open>catch\<close> block.
\<close>

lemma handleMint_builder_throws:
  assumes "validated p (st w)"
    and "image_file (st w) = Some img"
    and "axios_post e (pinFileRequest e img) = Inr imageHash"
    and "axios_post e (pinJSONRequest e (metadata (st w) (gatewayUrl imageHash))) = Inr metadataHash"
    and "generateSigner e (createUmi p (st w)) = Inr assetOrMint"
    and "transactionBuilder e
           (if useCore (st w)
            then Create (createUmi p (st w)) assetOrMint (name (st w)) (gatewayUrl metadataHash)
            else CreateNft (createUmi p (st w)) assetOrMint 0 (name (st w))
                   (gatewayUrl metadataHash)) = Inl err"
  shows "submissions (calls (handleMint e p w)) = submissions (calls w)"
    and "toasts (handleMint e p w) =
           toasts w @ [Toast ''Error minting NFT'' ''Please try again'' (Some ''destructive'')]"
  using assms(2-6)
  by (simp_all add: handleMint_validated [OF assms(1)] tryBlock_def Let_def effects
      submissions_append split: sum.splits)

lemma handleMint_key_lost:
  "submissions (calls (handleMint env_key_lost props_ok world_core)) = []"
  "toasts (handleMint env_key_lost props_ok world_core) =
     [Toast ''Error minting NFT'' ''Please try again'' (Some ''destructive'')]"
  by (simp_all add: handleMint_def tryBlock_def Let_def effects examples requests)

subsection \<open>Failures after validation\<close>

text \<open>
  Claim C5. Whenever the guards pass and the \<^verbatim>\<open>try\<close> block throws, at whichever step
  (image upload, metadata upload, signer set-up, signing or chain submission, decoding of
  the signature), the handler ends with the submitting flag \<open>isMinting\<close> false and has
  shown exactly one toast, the same generic failure toast in every case.
\<close>

theorem handleMint_failure_notification:
  assumes "validated p (st w)"
    and "tryBlock e p (st w) (setIsMinting True w) = Inl (err, w')"
  shows "isMinting (st (handleMint e p w)) = False \<and>
         toasts (handleMint e p w) =
           toasts w @ [Toast ''Error minting NFT'' ''Please try again'' (Some ''destructive'')]"
  using tryBlock_Inl_frame(1) [OF assms(2)] assms(2)
  by (simp add: handleMint_validated [OF assms(1)] effects)

theorem handleMint_failure_notification_witness:
  "isMinting (st (handleMint env_offline props_ok world_filled)) = False \<and>
   toasts (handleMint env_offline props_ok world_filled) =
     [Toast ''Error minting NFT'' ''Please try again'' (Some ''destructive'')] \<and>
   isMinting (st (handleMint env_json_rejected props_ok world_filled)) = False \<and>
   toasts (handleMint env_json_rejected props_ok world_filled) =
     [Toast ''Error minting NFT'' ''Please try again'' (Some ''destructive'')] \<and>
   isMinting (st (handleMint env_sign_refused props_ok world_second)) = False \<and>
   toasts (handleMint env_sign_refused props_ok world_second) =
     [Toast ''Error minting NFT'' ''Please try again'' (Some ''destructive'')]"
proof -
  from tryBlock_env_offline obtain err1 w1 where
    "tryBlock env_offline props_ok (st world_filled) (setIsMinting True world_filled)
       = Inl (err1, w1)" by blast
  note first = handleMint_failure_notification [OF validated_examples(1) this]
  from tryBlock_env_json_rejected obtain err2 w2 where
    "tryBlock env_json_rejected props_ok (st world_filled) (setIsMinting True world_filled)
       = Inl (err2, w2)" by blast
  note second = handleMint_failure_notification [OF validated_examples(1) this]
  from tryBlock_env_sign_refused obtain err3 w3 where
    "tryBlock env_sign_refused props_ok (st world_second) (setIsMinting True world_second)
       = Inl (err3, w3)" by blast
  note third = handleMint_failure_notification [OF validated_examples(3) this]
  from first second third show ?thesis
    by (simp add: world_filled_def world_second_def)
qed

text \<open>
  Claim C8. Whenever the guards pass and the \<^verbatim>\<open>try\<close> block throws, the form fields
  name, symbol, description and image and the issuance mode flag \<open>useCore\<close> have, after
  the handler, the values they had at submission.
\<close>

theorem handleMint_failure_keeps_form:
  assumes "validated p (st w)"
    and "tryBlock e p (st w) (setIsMinting True w) = Inl (err, w')"
  shows "name (st (handleMint e p w)) = name (st w) \<and>
         symbol (st (handleMint e p w)) = symbol (st w) \<and>
         description (st (handleMint e p w)) = description (st w) \<and>
         image_file (st (handleMint e p w)) = image_file (st w) \<and>
         useCore (st (handleMint e p w)) = useCore (st w)"
  using tryBlock_Inl_frame(2-6) [OF assms(2)] assms(2)
  by (simp add: handleMint_validated [OF assms(1)] effects)

theorem handleMint_failure_keeps_form_witness:
  "name (st (handleMint env_sign_refused props_ok world_second)) = ''Cat'' \<and>
   symbol (st (handleMint env_sign_refused props_ok world_second)) = ''CAT'' \<and>
   description (st (handleMint env_sign_refused props_ok world_second)) = ''A cat'' \<and>
   image_file (st (handleMint env_sign_refused props_ok world_second)) = Some (File ''cat.png'') \<and>
   useCore (st (handleMint env_sign_refused props_ok world_second)) = False"
proof -
  from tryBlock_env_sign_refused obtain err w' where
    "tryBlock env_sign_refused props_ok (st world_second) (setIsMinting True world_second)
       = Inl (err, w')" by blast
  from handleMint_failure_keeps_form [OF validated_examples(3) this] show ?thesis
    by (simp add: world_second_def world_filled_def)
qed

text \<open>
  Claim C10. If a mint attempt fails during or after the on-chain submission (the guards
  pass, both uploads succeed, the signer is generated, and the \<^verbatim>\<open>try\<close> block throws),
  then after the handler the state cells \<open>imageUrl\<close> and \<open>metadataUri\<close> hold the
  retrieval URLs of the two fresh uploads: they are not rolled back. The transaction link
  keeps its earlier value, so the result panel, which is shown when that link is not
  empty, then shows the earlier link beside the two new URLs.
\<close>

theorem handleMint_failure_keeps_urls:
  assumes "validated p (st w)"
    and "image_file (st w) = Some img"
    and "axios_post e (pinFileRequest e img) = Inr imageHash"
    and "axios_post e (pinJSONRequest e (metadata (st w) (gatewayUrl imageHash))) = Inr metadataHash"
    and "generateSigner e (createUmi p (st w)) = Inr assetOrMint"
    and "tryBlock e p (st w) (setIsMinting True w) = Inl (err, w')"
  shows "imageUrl (st (handleMint e p w)) = gatewayUrl imageHash \<and>
         metadataUri (st (handleMint e p w)) = gatewayUrl metadataHash \<and>
         transactionLink (st (handleMint e p w)) = transactionLink (st w) \<and>
         resultPanel (st (handleMint e p w)) =
           (if transactionLink (st w) = [] then None
            else Some (transactionLink (st w), gatewayUrl imageHash, gatewayUrl metadataHash))"
proof -
  have w': "imageUrl (st w') = gatewayUrl imageHash" "metadataUri (st w') = gatewayUrl metadataHash"
    "transactionLink (st w') = transactionLink (st w)"
    using assms(2-6)
    by (auto simp: tryBlock_def Let_def effects split: sum.splits)
  have final: "st (handleMint e p w) = (st w')\<lparr>isMinting := False\<rparr>"
    using assms(6) by (simp add: handleMint_validated [OF assms(1)] effects)
  show ?thesis
    by (simp add: final w' resultPanel_def)
qed

theorem handleMint_failure_keeps_urls_witness:
  "imageUrl (st world_second) = ''https://gateway.pinata.cloud/ipfs/QmOldImage'' \<and>
   metadataUri (st world_second) = ''https://gateway.pinata.cloud/ipfs/QmOldMeta'' \<and>
   imageUrl (st (handleMint env_sign_refused props_ok world_second)) =
     ''https://gateway.pinata.cloud/ipfs/QmImage'' \<and>
   metadataUri (st (handleMint env_sign_refused props_ok world_second)) =
     ''https://gateway.pinata.cloud/ipfs/QmMeta'' \<and>
   resultPanel (st (handleMint env_sign_refused props_ok world_second)) =
     Some (''https://explorer.solana.com/tx/4old?cluster=devnet'',
           ''https://gateway.pinata.cloud/ipfs/QmImage'',
           ''https://gateway.pinata.cloud/ipfs/QmMeta'')"
proof -
  have img: "image_file (st world_second) = Some (File ''cat.png'')"
    by (simp add: examples)
  have up1: "axios_post env_sign_refused (pinFileRequest env_sign_refused (File ''cat.png''))
      = Inr ''QmImage''"
    by (simp add: examples requests)
  have up2: "axios_post env_sign_refused
      (pinJSONRequest env_sign_refused (metadata (st world_second) (gatewayUrl ''QmImage'')))
      = Inr ''QmMeta''"
    by (simp add: examples requests)
  have signer: "generateSigner env_sign_refused (createUmi props_ok (st world_second))
      = Inr ''Mint111''"
    by (simp add: examples)
  from tryBlock_env_sign_refused obtain err w' where
    "tryBlock env_sign_refused props_ok (st world_second) (setIsMinting True world_second)
       = Inl (err, w')" by blast
  from handleMint_failure_keeps_urls [OF validated_examples(3) img up1 up2 signer this]
  show ?thesis
    by (simp add: world_second_def world_filled_def gatewayUrl_def)
qed

end
